theory Spec2Isabelle
  imports Complex_Main "HOL-Library.Log_Nat"
begin

section \<open>JavaScript values and numbers\<close>

text \<open>
  Request bodies, query strings and the schema's \<open>Mixed\<close> fields carry arbitrary JSON
  values. They are modelled by one datatype; \<open>JUndefined\<close> stands for a property that is
  absent. JSON has no NaN or infinity, so a number that arrives in a request is a
  rational.
\<close>

datatype js_value =
    JUndefined
  | JNull
  | JBool bool
  | JNum rat
  | JStr string
  | JArr "js_value list"
  | JObj "(string \<times> js_value) list"

text \<open>JavaScript's ToBoolean: what \<open>if (v)\<close>, \<open>!v\<close>, \<open>a || b\<close> and \<open>a && b\<close> test.\<close>

fun truthy :: "js_value \<Rightarrow> bool" where
  "truthy JUndefined = False"
| "truthy JNull = False"
| "truthy (JBool b) = b"
| "truthy (JNum n) = (n \<noteq> 0)"
| "truthy (JStr s) = (s \<noteq> [])"
| "truthy (JArr xs) = True"
| "truthy (JObj kvs) = True"

text \<open>\<open>a || b\<close>: the left operand when it is truthy, the right one otherwise.\<close>

definition js_or :: "js_value \<Rightarrow> js_value \<Rightarrow> js_value" where
  "js_or a b = (if truthy a then a else b)"

subsection \<open>Double-precision arithmetic\<close>

text \<open>
  A JavaScript Number is an IEEE 754 double. Counters (\<open>totalViews\<close>, \<open>syncAttempts\<close>,
  array lengths) hold integers and are modelled as \<open>int\<close>. A sum, a quotient or a
  product is rounded to the nearest double, ties to the even significand;
  \<open>round_double\<close> writes that rounding out for a 53-bit significand (the exponent range
  is not bounded: the magnitudes that occur here neither overflow nor reach the
  subnormal range).
\<close>

definition pow2 :: "int \<Rightarrow> rat" where
  "pow2 e = (if 0 \<le> e then 2 ^ nat e else 1 / 2 ^ nat (- e))"

text \<open>The exponent \<open>e\<close> with \<open>2^e \<le> x < 2^(e+1)\<close>, for a positive rational \<open>x\<close>.\<close>

definition ilog2 :: "rat \<Rightarrow> int" where
  "ilog2 x =
     (let (p, q) = quotient_of x;
          d = bitlen p - bitlen q
      in if pow2 d \<le> x then d else d - 1)"

definition round_double_pos :: "rat \<Rightarrow> rat" where
  "round_double_pos x =
     (let e = ilog2 x;
          m = x / pow2 (e - 52);
          n = \<lfloor>m\<rfloor>;
          f = m - of_int n
      in (if f < 1 / 2 \<or> (f = 1 / 2 \<and> even n) then of_int n else of_int (n + 1))
           * pow2 (e - 52))"

definition round_double :: "rat \<Rightarrow> rat" where
  "round_double x =
     (if x = 0 then 0
      else if 0 < x then round_double_pos x
      else - round_double_pos (- x))"

text \<open>\<open>a / b\<close> and \<open>a * b\<close> on Numbers; the callers never divide by zero.\<close>

definition js_div :: "rat \<Rightarrow> rat \<Rightarrow> rat" where
  "js_div a b = round_double (a / b)"

definition js_mul :: "rat \<Rightarrow> rat \<Rightarrow> rat" where
  "js_mul a b = round_double (a * b)"

text \<open>
  \<open>Math.round\<close>: the closest integer, a tie going towards plus infinity. It is exact
  on every double.
\<close>

definition Math_round :: "rat \<Rightarrow> int" where
  "Math_round x = \<lfloor>x + 1 / 2\<rfloor>"

text \<open>
  \<open>n += 1\<close> on a counter: the sum rounded to a double. The double nearest to an integer
  is an integer again (\<open>js_increment_double\<close> below), so the floor only changes the
  type. Up to \<open>2^53\<close> the sum is exact; at \<open>2^53\<close> it is rounded back to \<open>2^53\<close>.
\<close>

definition js_increment :: "int \<Rightarrow> int" where
  "js_increment n = \<lfloor>round_double (of_int n + 1)\<rfloor>"

section \<open>The Response model (backend/models/Response.js)\<close>

type_synonym object_id = string
type_synonym date = int

datatype field_type =
  singleLineText | multilineText | singleSelect | multipleSelect | attachment

record file_info =
  originalName :: string
  filename :: string
  file_size :: rat
  mimetype :: string
  url :: string

record field_response =
  fieldId :: string
  fieldLabel :: string
  fieldType :: field_type
  field_value :: js_value
  files :: "file_info list"

datatype response_status = pending | submitted | failed | synced

record error_entry =
  timestamp :: date
  message :: string
  details :: js_value

record submittedBy_rec =
  ip :: "string option"
  userAgent :: "string option"
  referrer :: "string option"
  submitter_email :: "string option"
  submitter_name :: "string option"

record syncStatus_rec =
  lastSyncAttempt :: "date option"
  syncAttempts :: int
  lastSyncError :: "string option"
  isSynced :: bool

text \<open>
  \<open>completionPercentage\<close> is a Number that may also be null: \<open>None\<close> is null,
  \<open>Some n\<close> the number.
\<close>

record metadata_rec =
  timeToComplete :: "rat option"
  deviceType :: "string option"
  browserInfo :: "string option"
  completionPercentage :: "rat option"

record response =
  response_id :: object_id
  formId :: object_id
  response_airtableBaseId :: string
  response_airtableTableId :: string
  airtableRecordId :: "string option"
  responses :: "field_response list"
  submittedBy :: submittedBy_rec
  status :: response_status
  errors :: "error_entry list"
  syncStatus :: syncStatus_rec
  metadata :: metadata_rec

subsection \<open>The pre-save hook\<close>

text \<open>
  \<open>!this.metadata.completionPercentage\<close> holds for null and for zero. The filter keeps
  an answer when \<open>r.value && r.value !== '' && r.value !== null\<close>.
\<close>

definition percentage_falsy :: "rat option \<Rightarrow> bool" where
  "percentage_falsy p = (case p of None \<Rightarrow> True | Some n \<Rightarrow> n = 0)"

definition completed :: "field_response \<Rightarrow> bool" where
  "completed r =
     (truthy (field_value r) \<and> field_value r \<noteq> JStr [] \<and> field_value r \<noteq> JNull)"

definition response_pre_save :: "response \<Rightarrow> response" where
  "response_pre_save r =
     (if percentage_falsy (completionPercentage (metadata r)) then
        (let totalFields = int (length (responses r));
             completedFields = int (length (filter completed (responses r)))
         in r\<lparr>metadata := (metadata r)\<lparr>completionPercentage :=
              Some (if totalFields > 0
                    then of_int (Math_round
                           (js_mul (js_div (of_int completedFields) (of_int totalFields)) 100))
                    else 0)\<rparr>\<rparr>)
      else r)"

text \<open>
  \<open>save()\<close> runs the hook and hands the document to the store; the instance methods
  below return the document as saved.
\<close>

definition response_save :: "response \<Rightarrow> response" where
  "response_save r = response_pre_save r"

subsection \<open>Instance methods\<close>

text \<open>
  The argument of \<open>updateSyncAttempt\<close> is null (the default), a string, or an Error
  object with a name and a message.
\<close>

datatype sync_error = NoError | ErrorString string | ErrorObject string string

fun error_truthy :: "sync_error \<Rightarrow> bool" where
  "error_truthy NoError = False"
| "error_truthy (ErrorString s) = (s \<noteq> [])"
| "error_truthy (ErrorObject n m) = True"

text \<open>
  \<open>error.message || error\<close>, cast to the schema's String: a string has no \<open>message\<close>
  property, and an Error with an empty message is stored through \<open>toString()\<close>, which
  is then its name.
\<close>

fun error_text :: "sync_error \<Rightarrow> string" where
  "error_text NoError = []"
| "error_text (ErrorString s) = s"
| "error_text (ErrorObject n m) = (if m \<noteq> [] then m else n)"

definition addError :: "date \<Rightarrow> string \<Rightarrow> js_value \<Rightarrow> response \<Rightarrow> response" where
  "addError now msg dets r =
     response_save
       (r\<lparr>errors := errors r @ [\<lparr>timestamp = now, message = msg, details = dets\<rparr>],
          status := failed\<rparr>)"

definition markAsSynced :: "date \<Rightarrow> string \<Rightarrow> response \<Rightarrow> response" where
  "markAsSynced now recordId r =
     response_save
       (r\<lparr>airtableRecordId := Some recordId,
          status := synced,
          syncStatus := (syncStatus r)\<lparr>isSynced := True, lastSyncAttempt := Some now\<rparr>\<rparr>)"

definition updateSyncAttempt :: "date \<Rightarrow> sync_error \<Rightarrow> response \<Rightarrow> response" where
  "updateSyncAttempt now err r =
     (let r1 = r\<lparr>syncStatus := (syncStatus r)
                  \<lparr>syncAttempts := js_increment (syncAttempts (syncStatus r)),
                   lastSyncAttempt := Some now\<rparr>\<rparr>;
          r2 = (if error_truthy err
                then r1\<lparr>syncStatus := (syncStatus r1)\<lparr>lastSyncError := Some (error_text err)\<rparr>,
                        status := failed\<rparr>
                else r1)
      in response_save r2)"

subsection \<open>Static methods\<close>

text \<open>
  \<open>find\<close> with the filter
  \<open>{'syncStatus.isSynced': false, 'syncStatus.syncAttempts': {$lt: 3}, status: {$ne: 'synced'}}\<close>
  over the collection, a list of documents.
\<close>

definition pendingSync_filter :: "response \<Rightarrow> bool" where
  "pendingSync_filter r =
     (isSynced (syncStatus r) = False \<and> syncAttempts (syncStatus r) < 3 \<and> status r \<noteq> synced)"

definition findPendingSync :: "response list \<Rightarrow> response list" where
  "findPendingSync coll = filter pendingSync_filter coll"

text \<open>
  \<open>new Response(doc)\<close> applies the schema's defaults: status \<open>pending\<close>, no errors,
  zero sync attempts, \<open>isSynced\<close> false, and \<open>completionPercentage\<close> 100 when the
  document does not give one. A property can be absent, null, or given.
\<close>

datatype 'a supplied = Absent | Null | Given 'a

definition default_completionPercentage :: rat where
  "default_completionPercentage = 100"

definition init_completionPercentage :: "rat supplied \<Rightarrow> rat option" where
  "init_completionPercentage p =
     (case p of Absent \<Rightarrow> Some default_completionPercentage
              | Null \<Rightarrow> None
              | Given n \<Rightarrow> Some n)"

definition new_response ::
  "object_id \<Rightarrow> object_id \<Rightarrow> string \<Rightarrow> string \<Rightarrow> field_response list \<Rightarrow> submittedBy_rec
     \<Rightarrow> rat supplied \<Rightarrow> response" where
  "new_response new_id form base table answers who percentage =
     \<lparr>response_id = new_id,
      formId = form,
      response_airtableBaseId = base,
      response_airtableTableId = table,
      airtableRecordId = None,
      responses = answers,
      submittedBy = who,
      status = pending,
      errors = [],
      syncStatus = \<lparr>lastSyncAttempt = None, syncAttempts = 0, lastSyncError = None,
                    isSynced = False\<rparr>,
      metadata = \<lparr>timeToComplete = None, deviceType = None, browserInfo = None,
                  completionPercentage = init_completionPercentage percentage\<rparr>\<rparr>"

section \<open>The Form model\<close>

datatype rule_operator =
  equals | not_equals | contains | not_contains | is_empty | is_not_empty

record conditional_rule =
  rule_fieldId :: string
  operator :: rule_operator
  rule_value :: js_value

record field_option =
  option_id :: "string option"
  option_name :: "string option"
  option_color :: "string option"

record form_field =
  airtableFieldId :: string
  airtableFieldName :: string
  airtableFieldType :: field_type
  label :: string
  placeholder :: "string option"
  field_description :: "string option"
  required :: bool
  options :: "field_option list"
  showWhen :: "conditional_rule list"
  field_order :: rat
  isVisible :: bool

record settings_rec =
  allowMultipleSubmissions :: bool
  requireLogin :: bool
  showProgressBar :: bool
  submitButtonText :: string
  successMessage :: string
  redirectUrl :: "string option"

record stats_rec =
  totalViews :: int
  totalSubmissions :: int
  conversionRate :: int

record shareSettings_rec =
  isPublic :: bool
  shareUrl :: "string option"
  embedCode :: "string option"

record form =
  form_id :: object_id
  title :: string
  description :: "string option"
  userId :: object_id
  airtableBaseId :: string
  airtableBaseName :: string
  airtableTableId :: string
  airtableTableName :: string
  form_fields :: "form_field list"
  settings :: settings_rec
  isActive :: bool
  isPublished :: bool
  stats :: stats_rec
  shareSettings :: shareSettings_rec

definition default_stats :: stats_rec where
  "default_stats = \<lparr>totalViews = 0, totalSubmissions = 0, conversionRate = 0\<rparr>"

definition default_shareSettings :: shareSettings_rec where
  "default_shareSettings = \<lparr>isPublic = True, shareUrl = None, embedCode = None\<rparr>"

subsection \<open>The pre-save hook\<close>

text \<open>
  \<open>client_url\<close> is \<open>process.env.CLIENT_URL\<close>; \<open>isNew\<close> is Mongoose's flag of a
  document that has not been stored yet. \<open>!shareUrl\<close> holds for an unset and for an
  empty string.
\<close>

definition shareUrl_falsy :: "string option \<Rightarrow> bool" where
  "shareUrl_falsy u = (case u of None \<Rightarrow> True | Some s \<Rightarrow> s = [])"

definition embed_snippet :: "string \<Rightarrow> object_id \<Rightarrow> string" where
  \<open>embed_snippet client_url i =
     ''<iframe src="'' @ client_url @ ''/embed/'' @ i
       @ ''" width="100%" height="600" frameborder="0"></iframe>''\<close>

definition form_pre_save :: "string \<Rightarrow> bool \<Rightarrow> form \<Rightarrow> form" where
  "form_pre_save client_url isNew f =
     (let f1 = (if isNew \<or> shareUrl_falsy (shareUrl (shareSettings f))
                then f\<lparr>shareSettings := (shareSettings f)
                        \<lparr>shareUrl := Some (form_id f),
                         embedCode := Some (embed_snippet client_url (form_id f))\<rparr>\<rparr>
                else f)
      in if totalViews (stats f1) > 0
         then f1\<lparr>stats := (stats f1)\<lparr>conversionRate :=
                Math_round (js_mul (js_div (of_int (totalSubmissions (stats f1)))
                                           (of_int (totalViews (stats f1)))) 100)\<rparr>\<rparr>
         else f1)"

text \<open>\<open>save()\<close> of a document: the hook runs, then the document goes to the store.\<close>

definition form_save :: "string \<Rightarrow> bool \<Rightarrow> form \<Rightarrow> form" where
  "form_save client_url isNew f = form_pre_save client_url isNew f"

definition incrementViews :: "string \<Rightarrow> form \<Rightarrow> form" where
  "incrementViews client_url f =
     form_save client_url False
       (f\<lparr>stats := (stats f)\<lparr>totalViews := js_increment (totalViews (stats f))\<rparr>\<rparr>)"

definition incrementSubmissions :: "string \<Rightarrow> form \<Rightarrow> form" where
  "incrementSubmissions client_url f =
     form_save client_url False
       (f\<lparr>stats := (stats f)\<lparr>totalSubmissions := js_increment (totalSubmissions (stats f))\<rparr>\<rparr>)"

text \<open>
  The statistics of a form that starts from the schema's defaults and changes only
  through the two counters: no negative view count, and a rate of 0 while there are no
  views.
\<close>

definition stats_consistent :: "form \<Rightarrow> bool" where
  "stats_consistent f =
     (0 \<le> totalViews (stats f) \<and> (totalViews (stats f) = 0 \<longrightarrow> conversionRate (stats f) = 0))"

section \<open>The User model (backend/models/User.js)\<close>

record profile_rec =
  profile_name :: "string option"
  avatarUrl :: "string option"
  airtableUsername :: "string option"

record user =
  user_id :: object_id
  email :: string
  airtableUserId :: string
  airtableAccessToken :: string
  airtableRefreshToken :: "string option"
  airtableTokenExpiresAt :: "date option"
  profile :: profile_rec
  user_isActive :: bool
  lastLoginAt :: date
  createdAt :: date
  updatedAt :: date
  version_key :: int

text \<open>\<open>isTokenExpired\<close>: no expiry means not expired; otherwise \<open>new Date() > expiresAt\<close>.\<close>

definition isTokenExpired :: "date \<Rightarrow> user \<Rightarrow> bool" where
  "isTokenExpired now u =
     (case airtableTokenExpiresAt u of None \<Rightarrow> False | Some t \<Rightarrow> now > t)"

text \<open>
  \<open>toObject()\<close> turns the document into a plain object, a list of properties; a path
  that is not set has no property, and a \<open>profile\<close> with nothing set is left out
  (Mongoose minimises empty objects). \<open>version_key\<close> is the document's \<open>__v\<close>.
\<close>

definition opt_prop :: "string \<Rightarrow> ('a \<Rightarrow> js_value) \<Rightarrow> 'a option \<Rightarrow> (string \<times> js_value) list" where
  "opt_prop k conv v = (case v of None \<Rightarrow> [] | Some x \<Rightarrow> [(k, conv x)])"

definition js_date :: "date \<Rightarrow> js_value" where
  "js_date t = JNum (of_int t)"

definition profile_props :: "profile_rec \<Rightarrow> (string \<times> js_value) list" where
  "profile_props p =
     opt_prop ''name'' JStr (profile_name p)
     @ opt_prop ''avatarUrl'' JStr (avatarUrl p)
     @ opt_prop ''airtableUsername'' JStr (airtableUsername p)"

definition profile_toObject :: "profile_rec \<Rightarrow> (string \<times> js_value) list" where
  "profile_toObject p =
     (if profile_props p = [] then [] else [(''profile'', JObj (profile_props p))])"

definition user_toObject :: "user \<Rightarrow> (string \<times> js_value) list" where
  "user_toObject u =
     [(''_id'', JStr (user_id u)),
      (''email'', JStr (email u)),
      (''airtableUserId'', JStr (airtableUserId u)),
      (''airtableAccessToken'', JStr (airtableAccessToken u))]
     @ opt_prop ''airtableRefreshToken'' JStr (airtableRefreshToken u)
     @ opt_prop ''airtableTokenExpiresAt'' js_date (airtableTokenExpiresAt u)
     @ profile_toObject (profile u)
     @ [(''isActive'', JBool (user_isActive u)),
        (''lastLoginAt'', js_date (lastLoginAt u)),
        (''createdAt'', js_date (createdAt u)),
        (''updatedAt'', js_date (updatedAt u)),
        (''__v'', JNum (of_int (version_key u)))]"

text \<open>\<open>delete obj.k\<close> removes the property \<open>k\<close>.\<close>

definition delete_prop :: "string \<Rightarrow> (string \<times> js_value) list \<Rightarrow> (string \<times> js_value) list" where
  "delete_prop k obj = filter (\<lambda>kv. fst kv \<noteq> k) obj"

definition toJSON :: "user \<Rightarrow> (string \<times> js_value) list" where
  "toJSON u =
     delete_prop ''airtableRefreshToken'' (delete_prop ''airtableAccessToken'' (user_toObject u))"

section \<open>The auth routes (backend/routes/auth.js)\<close>

record session =
  oauthState :: "string option"
  codeVerifier :: "string option"

text \<open>
  \<open>GET /airtable\<close> and \<open>GET /airtable-simple\<close> draw a random state (and, with PKCE, a
  random verifier), given here as arguments, and keep them in the session.
\<close>

definition airtable_begin :: "string \<Rightarrow> string \<Rightarrow> session \<Rightarrow> session" where
  "airtable_begin state verifier sess =
     sess\<lparr>oauthState := Some state, codeVerifier := Some verifier\<rparr>"

definition airtable_simple_begin :: "string \<Rightarrow> session \<Rightarrow> session" where
  "airtable_simple_begin state sess = sess\<lparr>oauthState := Some state\<rparr>"

text \<open>
  The query of the callback: each parameter is absent or a string; an empty string is
  falsy.
\<close>

record callback_query =
  query_code :: "string option"
  query_state :: "string option"
  query_error :: "string option"

definition param_truthy :: "string option \<Rightarrow> bool" where
  "param_truthy p = (case p of None \<Rightarrow> False | Some s \<Rightarrow> s \<noteq> [])"

definition param_value :: "string option \<Rightarrow> js_value" where
  "param_value p = (case p of None \<Rightarrow> JUndefined | Some s \<Rightarrow> JStr s)"

text \<open>
  \<open>GET /airtable/simple-callback\<close>. The token endpoint is the provider's: \<open>exchange\<close>
  maps the code to the body of its answer, \<open>Inr\<close> for a 2xx answer and \<open>Inl\<close> for the
  error payload that \<open>axios\<close> throws. The handler returns the JSON body it sends and the
  users collection, which it never touches. The session is an argument because the
  request carries it; the body of the handler does not read it.
\<close>

definition simple_callback ::
  "(string \<Rightarrow> js_value + js_value) \<Rightarrow> session \<Rightarrow> callback_query \<Rightarrow> user list
     \<Rightarrow> js_value \<times> user list" where
  "simple_callback exchange sess q users =
     (if param_truthy (query_error q)
      then (JObj [(''error'', JBool True), (''message'', param_value (query_error q))], users)
      else (case query_code q of
              None \<Rightarrow> (JObj [(''error'', JBool True), (''message'', JStr ''No code'')], users)
            | Some code \<Rightarrow>
                if code = []
                then (JObj [(''error'', JBool True), (''message'', JStr ''No code'')], users)
                else (case exchange code of
                        Inr data \<Rightarrow> (JObj [(''success'', JBool True), (''token'', data)], users)
                      | Inl err \<Rightarrow> (JObj [(''error'', JBool True), (''tokenError'', err)], users))))"

text \<open>\<open>GET /me\<close> sends the user through \<open>res.json\<close>, which serialises with \<open>toJSON\<close>.\<close>

datatype me_reply = MeStatus nat "(string \<times> js_value) list"

definition me_handler :: "date \<Rightarrow> user option \<Rightarrow> me_reply" where
  "me_handler now found =
     (case found of
        None \<Rightarrow> MeStatus 404 [(''message'', JStr ''User not found'')]
      | Some u \<Rightarrow>
          if isTokenExpired now u
          then MeStatus 401 [(''message'', JStr ''Token expired''), (''needsRefresh'', JBool True)]
          else MeStatus 200 (toJSON u))"

section \<open>The document store\<close>

text \<open>
  The two collections the form routes work on. A call of the driver either succeeds or
  throws; which one happens is an argument of each handler, one per call, so that the
  \<open>catch\<close> branch of the handler is part of the model.
\<close>

record store =
  form_docs :: "form list"
  response_docs :: "response list"

datatype db_outcome = Succeeds | Throws string

definition findById :: "form list \<Rightarrow> object_id \<Rightarrow> form option" where
  "findById docs i = find (\<lambda>f. form_id f = i) docs"

text \<open>Saving a stored document replaces the document of that id; a new one is added.\<close>

definition replace_form :: "form \<Rightarrow> form list \<Rightarrow> form list" where
  "replace_form f docs = map (\<lambda>g. if form_id g = form_id f then f else g) docs"

definition insert_form :: "form \<Rightarrow> form list \<Rightarrow> form list" where
  "insert_form f docs = docs @ [f]"

text \<open>\<open>Response.deleteMany({ formId: i })\<close> and \<open>Form.findByIdAndDelete(i)\<close>.\<close>

definition deleteMany_formId :: "object_id \<Rightarrow> response list \<Rightarrow> response list" where
  "deleteMany_formId i rs = filter (\<lambda>r. formId r \<noteq> i) rs"

fun findByIdAndDelete :: "object_id \<Rightarrow> form list \<Rightarrow> form list" where
  "findByIdAndDelete i [] = []"
| "findByIdAndDelete i (f # fs) = (if form_id f = i then fs else f # findByIdAndDelete i fs)"

subsection \<open>The ids of new documents\<close>

text \<open>
  Modelled from the spec: the generation of a document's id (the Form's identity is a
  "generated id", and duplicating "assigns a new id"). \<open>new Form(...)\<close> takes the \<open>_id\<close>
  from the driver's ObjectId generator, which is not part of the repository's sources.
  An ObjectId is twelve bytes, written as 24 hexadecimal digits. The generator is
  modelled by the number of ids it has drawn so far: the next id is that number in 24
  digits, and drawing it adds one to the number.
\<close>

definition hex_digit :: "nat \<Rightarrow> char" where
  "hex_digit k = ''0123456789abcdef'' ! (k mod 16)"

primrec hex_digits :: "nat \<Rightarrow> nat \<Rightarrow> string" where
  "hex_digits 0 n = []"
| "hex_digits (Suc w) n = hex_digits w (n div 16) @ [hex_digit (n mod 16)]"

definition objectId :: "nat \<Rightarrow> object_id" where
  "objectId n = hex_digits 24 n"

text \<open>The store together with the state of the generator.\<close>

record database = store +
  objectIds_drawn :: nat

text \<open>
  The invariant of a database whose form ids all come from the generator: every stored
  form has an id that was drawn earlier, and the count has not passed the twelve bytes.
\<close>

definition ids_drawn :: "database \<Rightarrow> bool" where
  "ids_drawn db =
     (objectIds_drawn db \<le> 16 ^ 24
      \<and> (\<forall>f \<in> set (form_docs db). \<exists>k < objectIds_drawn db. form_id f = objectId k))"

definition empty_database :: database where
  "empty_database = \<lparr>form_docs = [], response_docs = [], objectIds_drawn = 0\<rparr>"

section \<open>The form routes\<close>

datatype js_exception = TypeError | ReferenceError string | DriverError string

text \<open>
  What a handler sends: the status, and the \<open>message\<close>, \<open>error\<close> and \<open>form\<close> properties
  of the JSON body. \<open>error\<close> is the message of the exception that was caught.
\<close>

record form_reply =
  http_status :: nat
  reply_message :: "string option"
  reply_error :: "js_exception option"
  reply_form :: "form option"

definition message_reply :: "nat \<Rightarrow> string \<Rightarrow> form_reply" where
  "message_reply code msg =
     \<lparr>http_status = code, reply_message = Some msg, reply_error = None, reply_form = None\<rparr>"

definition error_reply :: "string \<Rightarrow> js_exception \<Rightarrow> form_reply" where
  "error_reply msg e =
     \<lparr>http_status = 500, reply_message = Some msg, reply_error = Some e, reply_form = None\<rparr>"

subsection \<open>GET /api/forms/:id\<close>

text \<open>
  \<open>req_user\<close> is \<open>req.user\<close> as the \<open>optionalAuth\<close> middleware leaves it: the user id of
  a valid token, or nothing.
\<close>

text \<open>\<open>req.user && form.userId.toString() === req.user.userId\<close>\<close>

definition is_owner :: "object_id option \<Rightarrow> form \<Rightarrow> bool" where
  "is_owner req_user f = (case req_user of None \<Rightarrow> False | Some uid \<Rightarrow> userId f = uid)"

definition get_form_handler ::
  "db_outcome \<Rightarrow> db_outcome \<Rightarrow> string \<Rightarrow> object_id option \<Rightarrow> object_id \<Rightarrow> store
     \<Rightarrow> form_reply \<times> store" where
  "get_form_handler find_outcome save_outcome client_url req_user i st =
     (case find_outcome of
        Throws e \<Rightarrow> (error_reply ''Failed to fetch form'' (DriverError e), st)
      | Succeeds \<Rightarrow>
          (case findById (form_docs st) i of
             None \<Rightarrow> (message_reply 404 ''Form not found'', st)
           | Some f \<Rightarrow>
               (let isOwner = is_owner req_user f;
                    isPublic = (isPublished f \<and> isActive f)
                in if \<not> isOwner \<and> \<not> isPublic
                   then (message_reply 403 ''Access denied'', st)
                   else if isPublic \<and> \<not> isOwner
                   then (case save_outcome of
                           Throws e \<Rightarrow> (error_reply ''Failed to fetch form'' (DriverError e), st)
                         | Succeeds \<Rightarrow>
                             (let f' = incrementViews client_url f
                              in (\<lparr>http_status = 200, reply_message = None, reply_error = None,
                                   reply_form = Some f'\<rparr>,
                                  st\<lparr>form_docs := replace_form f' (form_docs st)\<rparr>)))
                   else (\<lparr>http_status = 200, reply_message = None, reply_error = None,
                          reply_form = Some f\<rparr>, st))))"

subsection \<open>DELETE /api/forms/:id\<close>

text \<open>
  The handler runs behind \<open>authenticateToken\<close> and \<open>checkOwnership(Form)\<close>, which leave
  the owner's form in \<open>req.resource\<close>: the argument \<open>f\<close>.
\<close>

definition delete_responses_step :: "form \<Rightarrow> store \<Rightarrow> store" where
  "delete_responses_step f st =
     st\<lparr>response_docs := deleteMany_formId (form_id f) (response_docs st)\<rparr>"

definition delete_form_step :: "form \<Rightarrow> store \<Rightarrow> store" where
  "delete_form_step f st = st\<lparr>form_docs := findByIdAndDelete (form_id f) (form_docs st)\<rparr>"

definition delete_form_handler ::
  "db_outcome \<Rightarrow> db_outcome \<Rightarrow> form \<Rightarrow> store \<Rightarrow> form_reply \<times> store" where
  "delete_form_handler deleteMany_outcome delete_outcome f st =
     (case deleteMany_outcome of
        Throws e \<Rightarrow> (error_reply ''Failed to delete form'' (DriverError e), st)
      | Succeeds \<Rightarrow>
          (let st1 = delete_responses_step f st
           in case delete_outcome of
                Throws e \<Rightarrow> (error_reply ''Failed to delete form'' (DriverError e), st1)
              | Succeeds \<Rightarrow>
                  (message_reply 200 ''Form deleted successfully'', delete_form_step f st1)))"

subsection \<open>POST /api/forms/:id/duplicate\<close>

text \<open>
  \<open>new_id\<close> is the ObjectId that \<open>new Form\<close> draws from the generator; \<open>req_userId\<close> is
  \<open>req.user.userId\<close>; \<open>body_title\<close> is \<open>req.body.title\<close>, absent or a string. The
  document takes the schema's defaults for \<open>stats\<close> and \<open>shareSettings\<close>, and \<open>save\<close> runs
  the hook on it as a new document. The id is drawn when the document is made, before
  the save, so a save that throws has used it up as well.
\<close>

text \<open>
  \<open>toObject()\<close> of a field subdocument and of the settings gives a plain copy with the
  same content; values here have no identity, so the copy is the value itself.
\<close>

definition field_toObject :: "form_field \<Rightarrow> form_field" where
  "field_toObject field = field"

definition settings_toObject :: "settings_rec \<Rightarrow> settings_rec" where
  "settings_toObject s = s"

definition duplicate_title :: "string option \<Rightarrow> form \<Rightarrow> string" where
  "duplicate_title body_title originalForm =
     (case body_title of
        None \<Rightarrow> title originalForm @ '' (Copy)''
      | Some t \<Rightarrow> if t \<noteq> [] then t else title originalForm @ '' (Copy)'')"

definition duplicateForm :: "object_id \<Rightarrow> object_id \<Rightarrow> string option \<Rightarrow> form \<Rightarrow> form" where
  "duplicateForm new_id req_userId body_title originalForm =
     \<lparr>form_id = new_id,
      title = duplicate_title body_title originalForm,
      description = description originalForm,
      userId = req_userId,
      airtableBaseId = airtableBaseId originalForm,
      airtableBaseName = airtableBaseName originalForm,
      airtableTableId = airtableTableId originalForm,
      airtableTableName = airtableTableName originalForm,
      form_fields = map (\<lambda>field. field_toObject field) (form_fields originalForm),
      settings = settings_toObject (settings originalForm),
      isActive = True,
      isPublished = False,
      stats = default_stats,
      shareSettings = default_shareSettings\<rparr>"

definition duplicate_form_handler ::
  "db_outcome \<Rightarrow> string \<Rightarrow> object_id \<Rightarrow> string option \<Rightarrow> form \<Rightarrow> database
     \<Rightarrow> form_reply \<times> database" where
  "duplicate_form_handler save_outcome client_url req_userId body_title originalForm db =
     (let new_id = objectId (objectIds_drawn db);
          db1 = db\<lparr>objectIds_drawn := Suc (objectIds_drawn db)\<rparr>
      in case save_outcome of
           Throws e \<Rightarrow> (error_reply ''Failed to duplicate form'' (DriverError e), db1)
         | Succeeds \<Rightarrow>
             (let saved = form_save client_url True
                            (duplicateForm new_id req_userId body_title originalForm)
              in (\<lparr>http_status = 201, reply_message = Some ''Form duplicated successfully'',
                   reply_error = None, reply_form = Some saved\<rparr>,
                  db1\<lparr>form_docs := insert_form saved (form_docs db1)\<rparr>)))"

subsection \<open>POST /api/forms\<close>

text \<open>
  The body of the request is a JSON object, a list of properties without repeated keys.
  Reading a property that is absent gives undefined.
\<close>

definition get_prop :: "(string \<times> js_value) list \<Rightarrow> string \<Rightarrow> js_value" where
  "get_prop obj k = (case map_of obj k of None \<Rightarrow> JUndefined | Some v \<Rightarrow> v)"

text \<open>
  \<open>{ ...field, order: v }\<close> on an object: an \<open>order\<close> that is there keeps its place and
  takes the new value, otherwise the property is added last.
\<close>

fun set_prop :: "string \<Rightarrow> js_value \<Rightarrow> (string \<times> js_value) list \<Rightarrow> (string \<times> js_value) list" where
  "set_prop k v [] = [(k, v)]"
| "set_prop k v (kv # kvs) = (if fst kv = k then (k, v) # kvs else kv # set_prop k v kvs)"

text \<open>
  The check of one element of \<open>fields\<close>:
  \<open>!field.airtableFieldId || !field.airtableFieldName || !field.airtableFieldType || !field.label\<close>.
  Reading a property of null or undefined throws a TypeError (\<open>None\<close>); a number, a
  boolean, a string or an array has none of the four properties.
\<close>

definition field_incomplete :: "js_value \<Rightarrow> bool option" where
  "field_incomplete field =
     (case field of
        JNull \<Rightarrow> None
      | JUndefined \<Rightarrow> None
      | JObj kvs \<Rightarrow>
          Some (\<not> truthy (get_prop kvs ''airtableFieldId'') \<or> \<not> truthy (get_prop kvs ''airtableFieldName'')
                \<or> \<not> truthy (get_prop kvs ''airtableFieldType'') \<or> \<not> truthy (get_prop kvs ''label''))
      | _ \<Rightarrow> Some True)"

datatype validation = Valid | Incomplete nat | Threw js_exception

text \<open>The loop \<open>for (let i = 0; i < fields.length; i++)\<close>, from index \<open>i\<close> on.\<close>

fun validate_fields :: "nat \<Rightarrow> js_value list \<Rightarrow> validation" where
  "validate_fields i [] = Valid"
| "validate_fields i (field # rest) =
     (case field_incomplete field of
        None \<Rightarrow> Threw TypeError
      | Some True \<Rightarrow> Incomplete i
      | Some False \<Rightarrow> validate_fields (Suc i) rest)"

text \<open>
  \<open>fields.map((field, index) => ({ ...field, order: field.order || index }))\<close>. The
  elements that passed the check are objects (\<open>validate_fields_objects\<close> below), so
  the second case is never reached; it is what a number or a boolean would give.
\<close>

definition with_order :: "nat \<Rightarrow> js_value \<Rightarrow> js_value" where
  "with_order index field =
     (case field of
        JObj kvs \<Rightarrow> JObj (set_prop ''order'' (js_or (get_prop kvs ''order'') (JNum (of_nat index))) kvs)
      | _ \<Rightarrow> JObj [(''order'', JNum (of_nat index))])"

definition map_with_order :: "js_value list \<Rightarrow> js_value list" where
  "map_with_order fs = map (\<lambda>(index, field). with_order index field) (zip [0..<length fs] fs)"

text \<open>Decimal digits of a number, for the message \<open>Field ${i + 1} is missing ...\<close>.\<close>

fun digits :: "nat \<Rightarrow> nat \<Rightarrow> string" where
  "digits 0 n = []"
| "digits (Suc fuel) n =
     (if n < 10 then [char_of (48 + n)] else digits fuel (n div 10) @ [char_of (48 + n mod 10)])"

definition show_nat :: "nat \<Rightarrow> string" where
  "show_nat n = digits (Suc n) n"

text \<open>
  The handler. After the checks it evaluates
  \<open>const form = new Form({ ..., fields: fields.map(...), settings: { ...form.settings, ...settings } })\<close>:
  the argument reads \<open>form\<close> inside the initialiser of \<open>form\<close> itself, where the binding
  is not initialised yet, so the evaluation throws a ReferenceError before \<open>new Form\<close>
  is called. The \<open>catch\<close> block answers 500, and neither \<open>form.save()\<close> nor the 201
  answer is reached.
\<close>

definition create_form_handler ::
  "object_id \<Rightarrow> (string \<times> js_value) list \<Rightarrow> store \<Rightarrow> form_reply \<times> store" where
  "create_form_handler req_userId body st =
     (if \<not> truthy (get_prop body ''title'') \<or> \<not> truthy (get_prop body ''airtableBaseId'')
         \<or> \<not> truthy (get_prop body ''airtableTableId'') \<or> \<not> truthy (get_prop body ''fields'')
      then (message_reply 400
              ''Missing required fields: title, airtableBaseId, airtableTableId, fields'', st)
      else (case get_prop body ''fields'' of
              JArr fs \<Rightarrow>
                if length fs = 0
                then (message_reply 400 ''At least one field is required'', st)
                else (case validate_fields 0 fs of
                        Incomplete i \<Rightarrow>
                          (message_reply 400
                             (''Field '' @ show_nat (i + 1) @ '' is missing required properties''), st)
                      | Threw e \<Rightarrow> (error_reply ''Failed to create form'' e, st)
                      | Valid \<Rightarrow>
                          (error_reply ''Failed to create form'' (ReferenceError ''form''), st))
            | _ \<Rightarrow> (message_reply 400
                      ''Missing required fields: title, airtableBaseId, airtableTableId, fields'',
                    st)))"

section \<open>Example documents\<close>

definition sample_settings :: settings_rec where
  "sample_settings =
     \<lparr>allowMultipleSubmissions = True, requireLogin = False, showProgressBar = True,
      submitButtonText = ''Submit'', successMessage = ''Thank you for your submission!'',
      redirectUrl = None\<rparr>"

definition sample_field :: form_field where
  "sample_field =
     \<lparr>airtableFieldId = ''f1'', airtableFieldName = ''Name'',
      airtableFieldType = singleLineText, label = ''Your Name'', placeholder = None,
      field_description = None, required = False, options = [], showWhen = [],
      field_order = 0, isVisible = True\<rparr>"

text \<open>A stored form of user \<open>u1\<close> with the given id, flags and statistics.\<close>

definition sample_form :: "object_id \<Rightarrow> bool \<Rightarrow> bool \<Rightarrow> int \<Rightarrow> int \<Rightarrow> int \<Rightarrow> form" where
  "sample_form i active published views submissions rate =
     \<lparr>form_id = i, title = ''Survey'', description = None, userId = ''u1'',
      airtableBaseId = ''app1'', airtableBaseName = ''Base'', airtableTableId = ''tbl1'',
      airtableTableName = ''Table'', form_fields = [sample_field], settings = sample_settings,
      isActive = active, isPublished = published,
      stats = \<lparr>totalViews = views, totalSubmissions = submissions, conversionRate = rate\<rparr>,
      shareSettings = \<lparr>isPublic = True, shareUrl = Some i, embedCode = Some []\<rparr>\<rparr>"

definition sample_answer :: "string \<Rightarrow> js_value \<Rightarrow> field_response" where
  "sample_answer i v =
     \<lparr>fieldId = i, fieldLabel = ''Question'', fieldType = singleLineText, field_value = v,
      files = []\<rparr>"

definition nobody :: submittedBy_rec where
  "nobody = \<lparr>ip = None, userAgent = None, referrer = None, submitter_email = None,
              submitter_name = None\<rparr>"

text \<open>A response to form \<open>i\<close> as \<open>new Response\<close> makes it, with two answers, one empty.\<close>

definition sample_response :: "object_id \<Rightarrow> object_id \<Rightarrow> rat supplied \<Rightarrow> response" where
  "sample_response rid i percentage =
     new_response rid i ''app1'' ''tbl1''
       [sample_answer ''f1'' (JStr ''Ada''), sample_answer ''f2'' (JStr [])] nobody percentage"

text \<open>A store whose one form, active and published, has been viewed \<open>2^53\<close> times.\<close>

definition saturated_store :: store where
  "saturated_store =
     \<lparr>form_docs = [sample_form ''a1'' True True 9007199254740992 1 0], response_docs = []\<rparr>"

definition sample_store :: store where
  "sample_store =
     \<lparr>form_docs = [sample_form ''a1'' True True 3 1 33, sample_form ''a2'' True False 0 0 0],
      response_docs = [sample_response ''r1'' ''a1'' Absent, sample_response ''r2'' ''a2'' Absent,
                       sample_response ''r3'' ''a1'' Absent]\<rparr>"

text \<open>A database with two forms, whose ids are the first two that the generator drew.\<close>

definition sample_database :: database where
  "sample_database =
     \<lparr>form_docs = [sample_form (objectId 0) True True 3 1 33,
                   sample_form (objectId 1) True False 0 0 0],
      response_docs = [],
      objectIds_drawn = 2\<rparr>"

text \<open>The provider's answer to a token exchange, and a callback request.\<close>

definition provider_token :: js_value where
  "provider_token =
     JObj [(''access_token'', JStr ''at.secret''), (''refresh_token'', JStr ''rt.secret''),
           (''token_type'', JStr ''Bearer''), (''expires_in'', JNum 3600)]"

definition forged_query :: callback_query where
  "forged_query =
     \<lparr>query_code = Some ''code1'', query_state = Some ''forged'', query_error = None\<rparr>"

definition matching_query :: callback_query where
  "matching_query =
     \<lparr>query_code = Some ''code1'', query_state = Some ''k3x9q'', query_error = None\<rparr>"

definition started_session :: session where
  "started_session = airtable_simple_begin ''k3x9q'' \<lparr>oauthState = None, codeVerifier = None\<rparr>"

text \<open>The body of the scenario of the specification: one complete field, no order.\<close>

definition scenario_body :: "(string \<times> js_value) list" where
  "scenario_body =
     [(''title'', JStr ''Survey''), (''airtableBaseId'', JStr ''app1''),
      (''airtableBaseName'', JStr ''Base''), (''airtableTableId'', JStr ''tbl1''),
      (''airtableTableName'', JStr ''Table''),
      (''fields'', JArr [JObj [(''airtableFieldId'', JStr ''f1''),
                              (''airtableFieldName'', JStr ''Name''),
                              (''airtableFieldType'', JStr ''singleLineText''),
                              (''label'', JStr ''Your Name'')]])]"

section \<open>Rounding to a double: the error\<close>

text \<open>
  \<open>ilog2\<close> finds the binade of a positive rational, so the rounded value is within
  half a unit in the last place, a relative error of at most \<open>2^-53\<close>. A percentage
  \<open>Math.round((n / d) * 100)\<close> of two integers therefore is the exactly rounded
  \<open>round(100 * n / d)\<close>, unless \<open>100 * n / d\<close> lies halfway between two integers,
  where the two roundings of the doubles may push it to the integer below.
\<close>

lemma pow2_powi: "pow2 e = 2 powi e"
  by (simp add: pow2_def power_int_def inverse_eq_divide power_one_over)

lemma pow2_pos: "0 < pow2 e"
  by (simp add: pow2_powi)

lemma pow2_add: "pow2 (a + b) = pow2 a * pow2 b"
  by (simp add: pow2_powi power_int_add)

lemma pow2_one: "pow2 1 = 2"
  by (simp add: pow2_def)

lemma pow2_Suc: "pow2 (e + 1) = 2 * pow2 e"
  by (simp only: pow2_add pow2_one mult.commute)

lemma pow2_nat: "pow2 (int n) = 2 ^ n"
  by (simp add: pow2_def)

lemma pow2_diff: "pow2 (a - b) = pow2 a / pow2 b"
  by (simp add: pow2_powi power_int_diff)

lemma ilog2_bounds:
  assumes "0 < x"
  shows "pow2 (ilog2 x) \<le> x \<and> x < pow2 (ilog2 x + 1)"
proof -
  obtain p q where pq: "quotient_of x = (p, q)" by (cases "quotient_of x")
  then have q: "0 < q" by (rule quotient_of_denom_pos)
  have x: "x = of_int p / of_int q" using pq by (rule quotient_of_div)
  with assms q have p: "0 < p"
    by (simp add: zero_less_divide_iff)
  define d where "d = bitlen p - bitlen q"
  have bp: "2 ^ nat (bitlen p - 1) \<le> p \<and> p < 2 ^ nat (bitlen p)" using bitlen_bounds[OF p] .
  have bq: "2 ^ nat (bitlen q - 1) \<le> q \<and> q < 2 ^ nat (bitlen q)" using bitlen_bounds[OF q] .
  have bp1: "1 \<le> bitlen p" using p by (auto simp: bitlen_alt_def)
  have bq1: "1 \<le> bitlen q" using q by (auto simp: bitlen_alt_def)
  have P: "pow2 (bitlen p - 1) \<le> of_int p \<and> (of_int p :: rat) < pow2 (bitlen p)"
  proof -
    have "(of_int (2 ^ nat (bitlen p - 1)) :: rat) \<le> of_int p" using bp by (simp only: of_int_le_iff)
    moreover have "(of_int p :: rat) < of_int (2 ^ nat (bitlen p))" using bp by (simp only: of_int_less_iff)
    ultimately show ?thesis using bp1 by (simp add: pow2_def)
  qed
  have Q: "pow2 (bitlen q - 1) \<le> of_int q \<and> (of_int q :: rat) < pow2 (bitlen q)"
  proof -
    have "(of_int (2 ^ nat (bitlen q - 1)) :: rat) \<le> of_int q" using bq by (simp only: of_int_le_iff)
    moreover have "(of_int q :: rat) < of_int (2 ^ nat (bitlen q))" using bq by (simp only: of_int_less_iff)
    ultimately show ?thesis using bq1 by (simp add: pow2_def)
  qed
  have qpos: "(0::rat) < of_int q" using q by simp
  have up: "x < pow2 (d + 1)"
  proof -
    have "x * of_int q = of_int p" using x qpos by simp
    also have "\<dots> < pow2 (bitlen p)" using P by simp
    also have "\<dots> = pow2 (d + 1) * pow2 (bitlen q - 1)"
      by (simp add: d_def flip: pow2_add)
    also have "\<dots> \<le> pow2 (d + 1) * of_int q"
      using Q pow2_pos[of "d + 1"] by (simp add: mult_left_mono)
    finally show ?thesis using qpos by (simp add: mult_less_cancel_right)
  qed
  have lo: "pow2 (d - 1) < x"
  proof -
    have "pow2 (d - 1) * of_int q < pow2 (d - 1) * pow2 (bitlen q)"
      using Q pow2_pos[of "d - 1"] by (simp add: mult_less_cancel_left)
    also have "\<dots> = pow2 (bitlen p - 1)" by (simp add: d_def flip: pow2_add)
    also have "\<dots> \<le> of_int p" using P by simp
    also have "\<dots> = x * of_int q" using x qpos by simp
    finally show ?thesis using qpos by (simp add: mult_less_cancel_right)
  qed
  have il: "ilog2 x = (if pow2 d \<le> x then d else d - 1)"
    by (simp add: ilog2_def pq d_def Let_def)
  show ?thesis
  proof (cases "pow2 d \<le> x")
    case True
    with il up show ?thesis by simp
  next
    case False
    with il lo show ?thesis by simp
  qed
qed

lemma round_double_pos_error:
  assumes "0 < x"
  shows "\<bar>round_double_pos x - x\<bar> \<le> pow2 (ilog2 x - 53)"
proof -
  define u where "u = pow2 (ilog2 x - 52)"
  define m where "m = x / u"
  define n where "n = \<lfloor>m\<rfloor>"
  define f where "f = m - of_int n"
  define c :: rat where "c = (if f < 1 / 2 \<or> (f = 1 / 2 \<and> even n) then of_int n else of_int (n + 1))"
  have u: "0 < u" by (simp add: u_def pow2_pos)
  have r: "round_double_pos x = c * u"
    by (simp add: round_double_pos_def Let_def c_def f_def n_def m_def u_def)
  have f0: "0 \<le> f" "f < 1" by (simp_all add: f_def n_def) linarith+
  have cm: "\<bar>c - m\<bar> \<le> 1 / 2"
    using f0 by (auto simp: c_def f_def abs_if split: if_splits)
  have "round_double_pos x - x = (c - m) * u" using u by (simp add: r m_def algebra_simps)
  then have "\<bar>round_double_pos x - x\<bar> = \<bar>c - m\<bar> * u" using u by (simp add: abs_mult)
  also have "\<dots> \<le> (1 / 2) * u" using cm u by (simp add: mult_right_mono)
  also have "\<dots> = pow2 (ilog2 x - 53)"
  proof -
    have "pow2 (ilog2 x - 52) = pow2 ((ilog2 x - 53) + 1)" by simp
    also have "\<dots> = 2 * pow2 (ilog2 x - 53)" by (rule pow2_Suc)
    finally show ?thesis by (simp add: u_def)
  qed
  finally show ?thesis .
qed

lemma round_double_rel_error:
  assumes "0 \<le> x"
  shows "\<bar>round_double x - x\<bar> \<le> x / 2 ^ 53"
proof (cases "x = 0")
  case True
  then show ?thesis by (simp add: round_double_def)
next
  case False
  with assms have x: "0 < x" by simp
  have "pow2 (ilog2 x - 53) = pow2 (ilog2 x) / pow2 53" by (rule pow2_diff)
  also have "\<dots> = pow2 (ilog2 x) / 2 ^ 53" by (simp add: pow2_def)
  also have "\<dots> \<le> x / 2 ^ 53" using ilog2_bounds[OF x] by (simp add: divide_right_mono)
  finally show ?thesis using round_double_pos_error[OF x] x by (simp add: round_double_def)
qed


lemma percent_error:
  assumes nd: "0 \<le> n / d"
  shows "\<bar>js_mul (js_div n d) 100 - 100 * (n / d)\<bar> \<le> 3 * (100 * (n / d)) / 2 ^ 53"
proof -
  define a where "a = n / d"
  have a: "0 \<le> a" using nd by (simp add: a_def)
  define q where "q = round_double a"
  define p where "p = round_double (q * 100)"
  have e1: "\<bar>q - a\<bar> \<le> a / 2 ^ 53" unfolding q_def using a by (rule round_double_rel_error)
  have q0: "0 \<le> q"
  proof -
    have "a / 2 ^ 53 \<le> a" using a by (simp add: field_simps)
    with e1 show ?thesis by linarith
  qed
  have qa: "q \<le> 2 * a"
  proof -
    have "a / 2 ^ 53 \<le> a" using a by (simp add: field_simps)
    with e1 show ?thesis by linarith
  qed
  have "0 \<le> q * 100" using q0 by simp
  then have e2: "\<bar>p - q * 100\<bar> \<le> q * 100 / 2 ^ 53" unfolding p_def by (rule round_double_rel_error)
  have "q * 100 / 2 ^ 53 \<le> 2 * a * 100 / 2 ^ 53" using qa by (simp add: divide_right_mono)
  with e2 have e3: "\<bar>p - q * 100\<bar> \<le> 2 * (100 * a) / 2 ^ 53" by simp
  have "p - 100 * a = (p - q * 100) + 100 * (q - a)" by simp
  then have "\<bar>p - 100 * a\<bar> \<le> \<bar>p - q * 100\<bar> + \<bar>100 * (q - a)\<bar>"
    by (simp only: abs_triangle_ineq)
  also have "\<dots> = \<bar>p - q * 100\<bar> + 100 * \<bar>q - a\<bar>"
    using abs_mult[of 100 "q - a"] by simp
  also have "\<dots> \<le> 2 * (100 * a) / 2 ^ 53 + 100 * (a / 2 ^ 53)"
    using e1 e3 by (intro add_mono mult_left_mono) simp_all
  also have "\<dots> = 3 * (100 * a) / 2 ^ 53" by simp
  finally show ?thesis by (simp add: p_def q_def a_def js_mul_def js_div_def)
qed

lemma Math_round_near:
  fixes N D :: int
  assumes D: "0 < D" and close: "\<bar>p - (of_int N / of_int D - 1 / 2)\<bar> < 1 / of_int D"
  shows "Math_round p = N div D \<or> (N mod D = 0 \<and> Math_round p = N div D - 1)"
proof -
  define E where "E = N div D"
  define r where "r = N mod D"
  have N: "N = E * D + r" by (simp add: E_def r_def)
  have r: "0 \<le> r" "r < D" using D by (simp_all add: r_def)
  have Dr: "(0::rat) < of_int D" using D by simp
  have t: "(of_int N / of_int D :: rat) = of_int E + of_int r / of_int D"
    using Dr by (simp add: N field_simps)
  have lo: "of_int E + of_int r / of_int D - 1 / of_int D < p + 1 / 2"
    and hi: "p + 1 / 2 < of_int E + of_int r / of_int D + 1 / of_int D"
    using close t by (simp_all add: abs_less_iff)
  show ?thesis
  proof (cases "r = 0")
    case True
    have "of_int (E - 1) \<le> p + 1 / 2"
    proof -
      have "1 / (of_int D :: rat) \<le> 1" using D by simp
      with lo True show ?thesis by simp
    qed
    moreover have "p + 1 / 2 < of_int (E + 1)"
    proof -
      have "1 / (of_int D :: rat) \<le> 1" using D by simp
      with hi True show ?thesis by simp
    qed
    ultimately have "E - 1 \<le> \<lfloor>p + 1 / 2\<rfloor>" "\<lfloor>p + 1 / 2\<rfloor> < E + 1"
      by (simp_all add: le_floor_iff floor_less_iff floor_le_iff)
    then have "Math_round p = E \<or> Math_round p = E - 1"
      by (auto simp: Math_round_def)
    with True show ?thesis by (auto simp: E_def r_def)
  next
    case False
    with r have r1: "1 \<le> r" "r \<le> D - 1" by simp_all
    have "(1::rat) / of_int D \<le> of_int r / of_int D"
      using r1 Dr by (simp add: divide_right_mono)
    with lo have a: "of_int E < p + 1 / 2" by linarith
    have "(of_int r :: rat) \<le> of_int D - 1" using r1 by (metis of_int_1 of_int_diff of_int_le_iff)
    then have "(of_int r :: rat) / of_int D + 1 / of_int D \<le> 1"
      using Dr by (simp add: field_simps)
    with hi have b: "p + 1 / 2 < of_int E + 1" by linarith
    from a b have "\<lfloor>p + 1 / 2\<rfloor> = E" by (simp add: floor_unique)
    then show ?thesis by (simp add: Math_round_def E_def)
  qed
qed

lemma round_half: "round (100 * of_int s / of_int v :: rat) = (200 * s + v) div (2 * v)" if "0 < v"
proof -
  have "(100 * of_int s / of_int v :: rat) + 1 / 2 = of_int (200 * s + v) / of_int (2 * v)"
    using that by (simp add: field_simps)
  then show ?thesis by (simp only: round_def floor_divide_of_int_eq)
qed

lemma percent_round:
  fixes s v :: int
  assumes v: "0 < v" and s: "0 \<le> s" "s < 2 ^ 43"
  shows "Math_round (js_mul (js_div (of_int s) (of_int v)) 100) = round (100 * of_int s / of_int v :: rat)
     \<or> ((200 * s + v) mod (2 * v) = 0
         \<and> Math_round (js_mul (js_div (of_int s) (of_int v)) 100) = round (100 * of_int s / of_int v :: rat) - 1)"
proof -
  define p where "p = js_mul (js_div (of_int s) (of_int v)) 100"
  have vr: "(0::rat) < of_int v" using v by simp
  have a0: "(0::rat) \<le> of_int s / of_int v" using s v by simp
  have err: "\<bar>p - 100 * (of_int s / of_int v)\<bar> \<le> 3 * (100 * (of_int s / of_int v)) / 2 ^ 53"
    unfolding p_def using percent_error[OF a0] .
  have "(600 * of_int s :: rat) < 2 ^ 53"
  proof -
    have "600 * s < 600 * 2 ^ 43" using s by simp
    also have "\<dots> < 2 ^ 53" by simp
    finally have "600 * s < 2 ^ 53" .
    then have "(of_int (600 * s) :: rat) < of_int (2 ^ 53)" by (simp only: of_int_less_iff)
    then show ?thesis by simp
  qed
  then have "3 * (100 * (of_int s / of_int v :: rat)) / 2 ^ 53 < 1 / of_int (2 * v)"
    using vr by (simp add: field_simps)
  with err have "\<bar>p - 100 * (of_int s / of_int v)\<bar> < 1 / of_int (2 * v)" by linarith
  moreover have "100 * (of_int s / of_int v :: rat) = of_int (200 * s + v) / of_int (2 * v) - 1 / 2"
    using vr by (simp add: field_simps)
  ultimately have close: "\<bar>p - (of_int (200 * s + v) / of_int (2 * v) - 1 / 2)\<bar> < 1 / of_int (2 * v)"
    by simp
  have D: "0 < 2 * v" using v by simp
  show ?thesis
    using Math_round_near[OF D close] round_half[OF v, of s] by (simp add: p_def)
qed

subsection \<open>Adding one to a counter\<close>

lemma pow2_mono: "a \<le> b \<Longrightarrow> pow2 a \<le> pow2 b"
  by (simp add: pow2_powi power_int_increasing)

lemma pow2_int: "0 \<le> e \<Longrightarrow> pow2 e = of_int (2 ^ nat e)"
  by (simp add: pow2_def)

lemma round_double_pos_exact:
  assumes x: "0 < x" and m: "x / pow2 (ilog2 x - 52) = of_int k"
  shows "round_double_pos x = x"
proof -
  have u: "0 < pow2 (ilog2 x - 52)" by (rule pow2_pos)
  have "round_double_pos x = of_int k * pow2 (ilog2 x - 52)"
    by (simp only: round_double_pos_def Let_def m) simp
  also have "\<dots> = x" using u m by (simp add: field_simps)
  finally show ?thesis .
qed

lemma round_double_pos_int:
  assumes n: "0 < n"
  shows "\<exists>k. round_double_pos (of_int n) = of_int k"
proof (cases "ilog2 (of_int n) \<le> 52")
  case True
  define j where "j = nat (52 - ilog2 (of_int n))"
  have "pow2 (ilog2 (of_int n) - 52) * pow2 (int j) = pow2 0"
    using True by (simp add: j_def flip: pow2_add)
  then have "pow2 (ilog2 (of_int n) - 52) * 2 ^ j = 1" by (simp add: pow2_nat pow2_def)
  then have "inverse (pow2 (ilog2 (of_int n) - 52)) = 2 ^ j" by (rule inverse_unique)
  then have "of_int n / pow2 (ilog2 (of_int n) - 52) = of_int n * 2 ^ j"
    by (simp add: divide_inverse)
  then have eq: "of_int n / pow2 (ilog2 (of_int n) - 52) = of_int (n * 2 ^ j)" by simp
  have "0 < (of_int n :: rat)" using n by simp
  then have "round_double_pos (of_int n) = of_int n" using eq by (rule round_double_pos_exact)
  then show ?thesis by blast
next
  case False
  then have "pow2 (ilog2 (of_int n) - 52) = of_int (2 ^ nat (ilog2 (of_int n) - 52))"
    by (intro pow2_int) simp
  then show ?thesis
    by (simp add: round_double_pos_def Let_def del: of_int_power) (metis of_int_mult of_int_add of_int_1)
qed

lemma round_double_int: "\<exists>k. round_double (of_int n) = of_int k"
proof -
  consider "n = 0" | "0 < n" | "n < 0" by linarith
  then show ?thesis
  proof cases
    case 1
    then show ?thesis by (simp add: round_double_def)
  next
    case 2
    with round_double_pos_int[OF 2] show ?thesis by (simp add: round_double_def)
  next
    case 3
    then have "0 < - n" by simp
    from round_double_pos_int[OF this] obtain k where "round_double_pos (of_int (- n)) = of_int k" by blast
    then have "round_double (of_int n) = of_int (- k)" using 3 by (simp add: round_double_def)
    then show ?thesis by blast
  qed
qed

lemma js_increment_double: "of_int (js_increment n) = round_double (of_int n + 1)"
proof -
  obtain k where "round_double (of_int (n + 1)) = of_int k" using round_double_int by blast
  then show ?thesis by (simp add: js_increment_def)
qed

lemma round_double_pos_small:
  assumes n: "0 < n" "n \<le> 2 ^ 53"
  shows "round_double_pos (of_int n) = of_int n"
proof (cases "ilog2 (of_int n) \<le> 52")
  case True
  define j where "j = nat (52 - ilog2 (of_int n))"
  have "pow2 (ilog2 (of_int n) - 52) * pow2 (int j) = pow2 0"
    using True by (simp add: j_def flip: pow2_add)
  then have "pow2 (ilog2 (of_int n) - 52) * 2 ^ j = 1" by (simp add: pow2_nat pow2_def)
  then have "inverse (pow2 (ilog2 (of_int n) - 52)) = 2 ^ j" by (rule inverse_unique)
  then have "of_int n / pow2 (ilog2 (of_int n) - 52) = of_int n * 2 ^ j"
    by (simp add: divide_inverse)
  then have eq: "of_int n / pow2 (ilog2 (of_int n) - 52) = of_int (n * 2 ^ j)" by simp
  have "0 < (of_int n :: rat)" using n by simp
  then show ?thesis using eq by (rule round_double_pos_exact)
next
  case False
  then have "53 \<le> ilog2 (of_int n)" by simp
  then have "pow2 53 \<le> pow2 (ilog2 (of_int n))" by (rule pow2_mono)
  also have "\<dots> \<le> of_int n" using ilog2_bounds[of "of_int n"] n by simp
  finally have "(2 ^ 53 :: rat) \<le> of_int n" by (simp add: pow2_def)
  then have "(of_int (2 ^ 53) :: rat) \<le> of_int n" by simp
  then have "2 ^ 53 \<le> n" by (simp only: of_int_le_iff)
  with n have e: "n = 2 ^ 53" by simp
  have "round_double_pos (2 ^ 53) = 2 ^ 53" by code_simp
  with e show ?thesis by simp
qed

lemma js_increment_exact:
  assumes "- (2 ^ 53) \<le> n" and "n < 2 ^ 53"
  shows "js_increment n = n + 1"
proof -
  consider "n + 1 = 0" | "0 < n + 1" | "n + 1 < 0" by linarith
  then have "round_double (of_int (n + 1)) = of_int (n + 1)"
  proof cases
    case 1
    then show ?thesis by (simp add: round_double_def)
  next
    case 2
    then have "round_double_pos (of_int (n + 1)) = of_int (n + 1)"
      using assms by (intro round_double_pos_small) simp_all
    with 2 show ?thesis by (simp add: round_double_def del: of_int_add)
  next
    case 3
    then have "round_double_pos (of_int (- (n + 1))) = of_int (- (n + 1))"
      using assms by (intro round_double_pos_small) simp_all
    with 3 show ?thesis by (simp add: round_double_def del: of_int_add of_int_minus) simp
  qed
  then show ?thesis by (simp add: js_increment_def)
qed

lemma js_increment_pos:
  assumes "0 \<le> n"
  shows "0 < js_increment n"
proof -
  have x: "(0::rat) \<le> of_int n + 1" using assms by simp
  have "\<bar>round_double (of_int n + 1) - (of_int n + 1)\<bar> \<le> (of_int n + 1) / 2 ^ 53"
    using x by (rule round_double_rel_error)
  moreover have "(of_int n + 1 :: rat) / 2 ^ 53 < of_int n + 1" using assms by (simp add: field_simps)
  ultimately have "0 < round_double (of_int n + 1)" by linarith
  then have "(0::rat) < of_int (js_increment n)" by (simp add: js_increment_double)
  then show ?thesis by simp
qed

lemma js_increment_stuck: "js_increment (2 ^ 53) = 2 ^ 53"
  by code_simp

section \<open>Auxiliary facts\<close>

lemma findById_Some_id: "findById docs i = Some f \<Longrightarrow> form_id f = i \<and> f \<in> set docs"
  by (auto simp: findById_def find_Some_iff)

lemma findById_replace:
  "findById docs i = Some f \<Longrightarrow> form_id f' = i \<Longrightarrow> findById (replace_form f' docs) i = Some f'"
  by (induction docs) (auto simp: findById_def replace_form_def)

lemma form_save_id: "form_id (form_save client_url isNew f) = form_id f"
  by (simp add: form_save_def form_pre_save_def Let_def)

lemma incrementViews_id: "form_id (incrementViews client_url f) = form_id f"
  by (simp add: incrementViews_def form_save_id)

lemma incrementViews_views:
  "totalViews (stats (incrementViews client_url f)) = js_increment (totalViews (stats f))"
  by (simp add: incrementViews_def form_save_def form_pre_save_def Let_def)

lemma findByIdAndDelete_none:
  "distinct (map form_id docs) \<Longrightarrow> findById (findByIdAndDelete i docs) i = None"
proof (induction docs)
  case Nil
  then show ?case by (simp add: findById_def)
next
  case (Cons a docs)
  show ?case
  proof (cases "form_id a = i")
    case True
    with Cons.prems have "i \<notin> form_id ` set docs" by auto
    then have "findById docs i = None" by (force simp: findById_def find_None_iff)
    with True show ?thesis by simp
  next
    case False
    with Cons show ?thesis by (simp add: findById_def)
  qed
qed

lemma findByIdAndDelete_other:
  "j \<noteq> i \<Longrightarrow> findById (findByIdAndDelete i docs) j = findById docs j"
  by (induction docs) (auto simp: findById_def)

lemma hex_digit_inj:
  assumes "a < 16" "b < 16" "hex_digit a = hex_digit b"
  shows "a = b"
proof -
  have d: "distinct ''0123456789abcdef''" by simp
  have l: "length ''0123456789abcdef'' = 16" by simp
  from assms show ?thesis
    using nth_eq_iff_index_eq[OF d, of a b] l by (simp add: hex_digit_def)
qed

lemma length_hex_digits: "length (hex_digits w n) = w"
  by (induction w arbitrary: n) simp_all

lemma hex_digits_inj:
  "n < 16 ^ w \<Longrightarrow> m < 16 ^ w \<Longrightarrow> hex_digits w n = hex_digits w m \<Longrightarrow> n = m"
proof (induction w arbitrary: n m)
  case 0
  then show ?case by simp
next
  case (Suc w)
  from Suc.prems(3) have p: "hex_digits w (n div 16) = hex_digits w (m div 16)"
    and c: "hex_digit (n mod 16) = hex_digit (m mod 16)"
    by (simp_all add: length_hex_digits)
  have "n div 16 < 16 ^ w" "m div 16 < 16 ^ w"
    using Suc.prems(1,2) by (simp_all add: less_mult_imp_div_less mult.commute)
  with p have q: "n div 16 = m div 16" by (rule Suc.IH[rotated 2])
  have r: "n mod 16 = m mod 16" using c by (intro hex_digit_inj) simp_all
  have "n = 16 * (n div 16) + n mod 16" by simp
  also have "\<dots> = 16 * (m div 16) + m mod 16" using q r by simp
  also have "\<dots> = m" by simp
  finally show ?case .
qed

lemma objectId_inj: "n < 16 ^ 24 \<Longrightarrow> m < 16 ^ 24 \<Longrightarrow> objectId n = objectId m \<Longrightarrow> n = m"
  unfolding objectId_def by (rule hex_digits_inj)

text \<open>An id drawn from a database with the invariant is not the id of a stored form.\<close>

lemma objectId_fresh:
  assumes "ids_drawn db" and "objectIds_drawn db < 16 ^ 24"
  shows "objectId (objectIds_drawn db) \<notin> form_id ` set (form_docs db)"
proof
  assume "objectId (objectIds_drawn db) \<in> form_id ` set (form_docs db)"
  then obtain f where f: "f \<in> set (form_docs db)" "form_id f = objectId (objectIds_drawn db)"
    by auto
  from assms(1) f(1) obtain k where k: "k < objectIds_drawn db" "form_id f = objectId k"
    by (auto simp: ids_drawn_def)
  from k(1) assms(2) have "k < 16 ^ 24" by simp
  with assms(2) f(2) k(2) have "objectIds_drawn db = k"
    by (intro objectId_inj) simp_all
  with k(1) show False by simp
qed

lemma ids_drawn_empty: "ids_drawn empty_database"
  by (simp add: ids_drawn_def empty_database_def)

text \<open>
  Replacing or removing documents adds no id, so the invariant survives every write of
  the other handlers.
\<close>

lemma ids_drawn_fewer:
  assumes "ids_drawn db" and "form_id ` set fs \<subseteq> form_id ` set (form_docs db)"
  shows "ids_drawn (db\<lparr>form_docs := fs\<rparr>)"
proof -
  have "\<exists>k < objectIds_drawn db. form_id f = objectId k" if "f \<in> set fs" for f
  proof -
    from that assms(2) have "form_id f \<in> form_id ` set (form_docs db)" by blast
    then obtain g where g: "g \<in> set (form_docs db)" "form_id f = form_id g" by blast
    from assms(1) g(1) have "\<exists>k < objectIds_drawn db. form_id g = objectId k"
      unfolding ids_drawn_def by blast
    with g(2) show ?thesis by simp
  qed
  moreover have "objectIds_drawn db \<le> 16 ^ 24" using assms(1) unfolding ids_drawn_def by blast
  ultimately show ?thesis unfolding ids_drawn_def by simp
qed

lemma replace_form_ids: "map form_id (replace_form f docs) = map form_id docs"
  by (induction docs) (simp_all add: replace_form_def)

lemma findByIdAndDelete_ids: "set (findByIdAndDelete i docs) \<subseteq> set docs"
  by (induction docs) auto

lemma get_set_prop: "get_prop (set_prop k v kvs) k = v"
  by (induction kvs) (auto simp: get_prop_def)

lemma get_set_prop_other: "k' \<noteq> k \<Longrightarrow> get_prop (set_prop k v kvs) k' = get_prop kvs k'"
  by (induction kvs) (auto simp: get_prop_def)

section \<open>Properties of the Response model\<close>

text \<open>
  C1. The pending-sync query returns a Response of the collection if and only if its
  \<open>syncStatus.isSynced\<close> is false, its \<open>syncStatus.syncAttempts\<close> is strictly below 3
  and its status is not \<open>synced\<close>; a Response with three attempts and \<open>isSynced\<close> false
  is never returned.
\<close>

theorem findPendingSync_iff:
  "(r \<in> set (findPendingSync coll) \<longleftrightarrow>
      r \<in> set coll \<and> isSynced (syncStatus r) = False \<and> syncAttempts (syncStatus r) < 3
        \<and> status r \<noteq> synced)
   \<and> (\<not> (syncAttempts (syncStatus r) = 3 \<and> isSynced (syncStatus r) = False
          \<and> r \<in> set (findPendingSync coll)))"
  by (auto simp: findPendingSync_def pendingSync_filter_def)

text \<open>
  The hook computes a percentage only when the stored one is null or zero; the value is
  then \<open>Math.round((completed / total) * 100)\<close> in double arithmetic, and 0 for no
  answers.
\<close>

lemma response_pre_save_percentage:
  "completionPercentage (metadata (response_pre_save r)) =
     (if percentage_falsy (completionPercentage (metadata r))
      then Some (if responses r = [] then 0
                 else of_int (Math_round (js_mul
                        (js_div (of_int (int (length (filter completed (responses r)))))
                                (of_int (int (length (responses r))))) 100)))
      else completionPercentage (metadata r))"
  by (simp add: response_pre_save_def Let_def)

lemma response_pre_save_percentage_round:
  assumes "percentage_falsy (completionPercentage (metadata r))" and "responses r \<noteq> []"
    and "length (responses r) < 2 ^ 43"
  shows "completionPercentage (metadata (response_pre_save r))
           = Some (of_int (round (100 * of_int (int (length (filter completed (responses r))))
                                   / of_int (int (length (responses r))) :: rat)))
       \<or> completionPercentage (metadata (response_pre_save r))
           = Some (of_int (round (100 * of_int (int (length (filter completed (responses r))))
                                   / of_int (int (length (responses r))) :: rat) - 1))"
proof -
  have c: "int (length (filter completed (responses r))) \<le> int (length (responses r))"
    by simp
  have n: "int (length (responses r)) < 2 ^ 43"
    using assms(3) by (metis of_nat_less_iff of_nat_numeral of_nat_power)
  have v: "0 < int (length (responses r))" using assms(2) by simp
  have "0 \<le> int (length (filter completed (responses r)))" by simp
  moreover have "int (length (filter completed (responses r))) < 2 ^ 43" using c n by linarith
  ultimately show ?thesis
    using percent_round[OF v, of "int (length (filter completed (responses r)))"] assms(1,2)
    by (auto simp: response_pre_save_percentage)
qed

lemma new_response_percentage_default:
  "completionPercentage (metadata (response_save (new_response rid i b t answers who Absent)))
     = Some 100"
  by (simp add: response_save_def response_pre_save_def new_response_def
      init_completionPercentage_def default_completionPercentage_def percentage_falsy_def)

lemma sample_response_null_percentage:
  "completionPercentage (metadata (response_save (sample_response ''r1'' ''a1'' Null))) = Some 50"
  by code_simp

text \<open>
  C6. Claimed: a Response created or saved without a supplied completion percentage gets
  \<open>round(100 * non-empty answers / answers)\<close>. The schema's default of 100 fills the
  property when the document is made, so the hook's test \<open>!completionPercentage\<close> fails
  and nothing is computed: a response with two answers, one of them empty, is saved with
  100, not 50.
\<close>

theorem response_save_default_percentage:
  "length (responses (sample_response ''r1'' ''a1'' Absent)) = 2
   \<and> length (filter completed (responses (sample_response ''r1'' ''a1'' Absent))) = 1
   \<and> completionPercentage (metadata (response_save (sample_response ''r1'' ''a1'' Absent)))
       = Some 100"
  by (simp add: response_save_def response_pre_save_def sample_response_def new_response_def
      init_completionPercentage_def default_completionPercentage_def percentage_falsy_def
      completed_def sample_answer_def)

text \<open>
  C7, as amended. A successful sync (\<open>markAsSynced\<close>) sets the status to \<open>synced\<close>,
  stores the external record id and sets \<open>isSynced\<close>. \<open>markAsSynced\<close>, and
  \<open>updateSyncAttempt\<close> without an error, leave a \<open>synced\<close> status as it is; \<open>addError\<close>,
  and \<open>updateSyncAttempt\<close> with an error, set the status to \<open>failed\<close> whatever it was,
  \<open>synced\<close> included.
\<close>

theorem status_after_lifecycle_operation:
  "status (markAsSynced now recordId r) = synced
   \<and> airtableRecordId (markAsSynced now recordId r) = Some recordId
   \<and> isSynced (syncStatus (markAsSynced now recordId r)) = True
   \<and> status (addError now msg dets r) = failed
   \<and> status (updateSyncAttempt now err r) = (if error_truthy err then failed else status r)"
  by (simp add: markAsSynced_def addError_def updateSyncAttempt_def response_save_def
      response_pre_save_def Let_def)

text \<open>
  C7 as stated fails: \<open>addError\<close> on a Response that a successful sync has just marked
  \<open>synced\<close> moves it to \<open>failed\<close>.
\<close>

theorem synced_not_terminal_counterexample:
  "status (markAsSynced 10 ''rec1'' (sample_response ''r1'' ''a1'' Absent)) = synced
   \<and> status (addError 20 ''late failure'' JNull
               (markAsSynced 10 ''rec1'' (sample_response ''r1'' ''a1'' Absent))) = failed"
  by (simp add: markAsSynced_def addError_def response_save_def response_pre_save_def Let_def)

section \<open>Properties of the Form model and the form routes\<close>

text \<open>
  What the hook stores, as the code computes it: with \<open>totalViews > 0\<close> the conversion
  rate is \<open>Math.round((totalSubmissions / totalViews) * 100)\<close> in double arithmetic (the
  quotient is rounded to a double, then the product); otherwise the stored rate stays.
\<close>

lemma form_save_conversionRate_computed:
  "conversionRate (stats (form_save client_url isNew f)) =
     (if totalViews (stats f) > 0
      then Math_round (js_mul (js_div (of_int (totalSubmissions (stats f)))
                                      (of_int (totalViews (stats f)))) 100)
      else conversionRate (stats f))
   \<and> totalViews (stats (form_save client_url isNew f)) = totalViews (stats f)
   \<and> totalSubmissions (stats (form_save client_url isNew f)) = totalSubmissions (stats f)"
  by (simp add: form_save_def form_pre_save_def Let_def)

text \<open>
  C4, as amended. After a save with \<open>totalViews > 0\<close> (and a submission count from 0 to
  below \<open>2^43\<close>) the conversion rate is \<open>round(100 * totalSubmissions / totalViews)\<close>,
  except that where \<open>100 * totalSubmissions / totalViews\<close> is exactly halfway between
  two integers it may be one less. With \<open>totalViews\<close> not above 0 the save leaves the
  stored conversion rate as it was. The two counters are not changed by the hook.
\<close>

theorem form_save_conversionRate:
  "(0 < totalViews (stats f) \<and> 0 \<le> totalSubmissions (stats f)
      \<and> totalSubmissions (stats f) < 2 ^ 43 \<longrightarrow>
      conversionRate (stats (form_save client_url isNew f))
        = round (100 * of_int (totalSubmissions (stats f)) / of_int (totalViews (stats f)) :: rat)
      \<or> ((200 * totalSubmissions (stats f) + totalViews (stats f))
             mod (2 * totalViews (stats f)) = 0
          \<and> conversionRate (stats (form_save client_url isNew f))
              = round (100 * of_int (totalSubmissions (stats f))
                         / of_int (totalViews (stats f)) :: rat) - 1))
   \<and> (\<not> 0 < totalViews (stats f) \<longrightarrow>
        conversionRate (stats (form_save client_url isNew f)) = conversionRate (stats f))
   \<and> totalViews (stats (form_save client_url isNew f)) = totalViews (stats f)
   \<and> totalSubmissions (stats (form_save client_url isNew f)) = totalSubmissions (stats f)"
  using percent_round[of "totalViews (stats f)" "totalSubmissions (stats f)"]
  by (auto simp: form_save_conversionRate_computed)

theorem form_save_conversionRate_witness:
  "conversionRate (stats (form_save ''http://localhost:3000'' False
       (sample_form ''a1'' True True 4 1 0))) = 25
   \<and> conversionRate (stats (form_save ''http://localhost:3000'' False
       (sample_form ''a1'' True True 0 5 50))) = 50"
  using form_save_conversionRate[of "sample_form ''a1'' True True 4 1 0"
          "''http://localhost:3000''" False]
    form_save_conversionRate[of "sample_form ''a1'' True True 0 5 50"
          "''http://localhost:3000''" False]
  by (simp add: sample_form_def)

text \<open>
  The stored rate that the first counterexample below starts from cannot arise through
  the model's own operations: a form made with the schema's defaults has consistent
  statistics, and every save, view and submission keeps them so. For such a form the
  rate is 0 while \<open>totalViews\<close> is 0.
\<close>

lemma stats_consistent_new:
  "stats_consistent (form_save client_url True (duplicateForm new_id uid body_title originalForm))"
  by (simp add: stats_consistent_def form_save_conversionRate_computed duplicateForm_def
      default_stats_def)

lemma stats_consistent_preserved:
  assumes "stats_consistent f"
  shows "stats_consistent (form_save client_url isNew f)"
    and "stats_consistent (incrementViews client_url f)"
    and "stats_consistent (incrementSubmissions client_url f)"
  using assms js_increment_pos[of "totalViews (stats f)"]
  by (auto simp: stats_consistent_def incrementViews_def incrementSubmissions_def
      form_save_conversionRate_computed)

text \<open>
  C4 as stated fails twice: a form with no views and a stored rate of 50 keeps 50 through
  a save; and with 23 submissions for 40 views the doubles give 57.49999999999999, so
  the stored rate is 57, while \<open>round(100 * 23 / 40) = round(57.5) = 58\<close>.
\<close>

theorem conversionRate_counterexample:
  "conversionRate (stats (form_save ''http://localhost:3000'' False
       (sample_form ''a1'' True True 0 5 50))) = 50
   \<and> conversionRate (stats (form_save ''http://localhost:3000'' False
       (sample_form ''a1'' True True 40 23 0))) = 57
   \<and> round (100 * 23 / 40 :: rat) = 58"
  by code_simp

text \<open>
  C5, as amended. With the form \<open>f\<close> stored under the id and the driver calls
  succeeding: a requester who is not the owner gets 403 when the form is not both active
  and published, and the store is unchanged (so \<open>totalViews\<close> is); gets 200 when it is
  both, and the stored form's \<open>totalViews\<close> is the old one plus 1 in double arithmetic,
  which is exactly one more for a count from \<open>-2^53\<close> to below \<open>2^53\<close>; the owner gets
  200 and the form whatever the flags are, and the store is unchanged.
\<close>

theorem get_form_access_control:
  assumes "findById (form_docs st) i = Some f"
  shows "(\<not> is_owner u f \<and> \<not> (isActive f \<and> isPublished f) \<longrightarrow>
            http_status (fst (get_form_handler Succeeds save_outcome client_url u i st)) = 403
            \<and> snd (get_form_handler Succeeds save_outcome client_url u i st) = st)
       \<and> (\<not> is_owner u f \<and> isActive f \<and> isPublished f \<longrightarrow>
            http_status (fst (get_form_handler Succeeds Succeeds client_url u i st)) = 200
            \<and> (\<exists>f'. findById (form_docs (snd (get_form_handler Succeeds Succeeds client_url u i st))) i
                       = Some f'
                    \<and> reply_form (fst (get_form_handler Succeeds Succeeds client_url u i st)) = Some f'
                    \<and> totalViews (stats f') = js_increment (totalViews (stats f))
                    \<and> (- (2 ^ 53) \<le> totalViews (stats f) \<and> totalViews (stats f) < 2 ^ 53 \<longrightarrow>
                          totalViews (stats f') = totalViews (stats f) + 1)))
       \<and> (is_owner u f \<longrightarrow>
            http_status (fst (get_form_handler Succeeds save_outcome client_url u i st)) = 200
            \<and> reply_form (fst (get_form_handler Succeeds save_outcome client_url u i st)) = Some f
            \<and> snd (get_form_handler Succeeds save_outcome client_url u i st) = st)"
  using assms findById_replace[OF assms, of "incrementViews client_url f"]
    js_increment_exact[of "totalViews (stats f)"]
  by (auto simp: get_form_handler_def Let_def message_reply_def incrementViews_id
      incrementViews_views dest: findById_Some_id)

theorem get_form_access_control_witness:
  "findById (form_docs sample_store) ''a1'' = Some (sample_form ''a1'' True True 3 1 33)
   \<and> http_status (fst (get_form_handler Succeeds Succeeds ''http://localhost:3000'' None
                         ''a1'' sample_store)) = 200
   \<and> (\<exists>f'. findById (form_docs (snd (get_form_handler Succeeds Succeeds
                 ''http://localhost:3000'' None ''a1'' sample_store))) ''a1'' = Some f'
            \<and> totalViews (stats f') = 4)
   \<and> findById (form_docs sample_store) ''a2'' = Some (sample_form ''a2'' True False 0 0 0)
   \<and> http_status (fst (get_form_handler Succeeds Succeeds ''http://localhost:3000''
                         (Some ''u2'') ''a2'' sample_store)) = 403
   \<and> snd (get_form_handler Succeeds Succeeds ''http://localhost:3000'' (Some ''u2'') ''a2''
            sample_store) = sample_store
   \<and> http_status (fst (get_form_handler Succeeds Succeeds ''http://localhost:3000''
                         (Some ''u1'') ''a2'' sample_store)) = 200"
proof -
  have h1: "findById (form_docs sample_store) ''a1'' = Some (sample_form ''a1'' True True 3 1 33)"
    by (simp add: findById_def sample_store_def sample_form_def)
  have h2: "findById (form_docs sample_store) ''a2'' = Some (sample_form ''a2'' True False 0 0 0)"
    by (simp add: findById_def sample_store_def sample_form_def)
  have n1: "\<not> is_owner None (sample_form ''a1'' True True 3 1 33)"
    by (simp add: is_owner_def)
  have n2: "\<not> is_owner (Some ''u2'') (sample_form ''a2'' True False 0 0 0)"
    by (simp add: is_owner_def sample_form_def)
  have o2: "is_owner (Some ''u1'') (sample_form ''a2'' True False 0 0 0)"
    by (simp add: is_owner_def sample_form_def)
  have f1: "isActive (sample_form ''a1'' True True 3 1 33)
            \<and> isPublished (sample_form ''a1'' True True 3 1 33)
            \<and> totalViews (stats (sample_form ''a1'' True True 3 1 33)) = 3"
    by (simp add: sample_form_def)
  have f2: "\<not> isPublished (sample_form ''a2'' True False 0 0 0)"
    by (simp add: sample_form_def)
  show ?thesis
    using get_form_access_control[OF h1, of None Succeeds "''http://localhost:3000''"]
      get_form_access_control[OF h2, of "Some ''u2''" Succeeds "''http://localhost:3000''"]
      get_form_access_control[OF h2, of "Some ''u1''" Succeeds "''http://localhost:3000''"]
      h1 h2 n1 n2 o2 f1 f2
    by auto
qed

text \<open>
  C5 as stated fails where the count has reached \<open>2^53 = 9007199254740992\<close>: the read of
  a requester who is not the owner succeeds, and the stored \<open>totalViews\<close> is the same
  number afterwards, since \<open>2^53 + 1\<close> is not a double and the sum is rounded back.
\<close>

theorem totalViews_increment_counterexample:
  "map (\<lambda>f. totalViews (stats f)) (form_docs saturated_store) = [9007199254740992]
   \<and> http_status (fst (get_form_handler Succeeds Succeeds ''http://localhost:3000'' None
                         ''a1'' saturated_store)) = 200
   \<and> map (\<lambda>f. totalViews (stats f))
         (form_docs (snd (get_form_handler Succeeds Succeeds ''http://localhost:3000'' None
                            ''a1'' saturated_store))) = [9007199254740992]"
  by code_simp

text \<open>
  C8. The owner's delete first removes every Response whose \<open>formId\<close> is the form's id,
  with the forms untouched, and then removes the form: the store after a successful
  delete is the second step applied to the result of the first, it holds no Response
  that references the form, and (ids being unique in the collection) no form of that
  id. When the second call throws, the responses are gone and the form is still there;
  when the first one throws, nothing has changed.
\<close>

theorem delete_form_cascade:
  assumes "distinct (map form_id (form_docs st))"
  shows "http_status (fst (delete_form_handler Succeeds Succeeds f st)) = 200
     \<and> snd (delete_form_handler Succeeds Succeeds f st)
         = delete_form_step f (delete_responses_step f st)
     \<and> (\<forall>r \<in> set (response_docs (delete_responses_step f st)). formId r \<noteq> form_id f)
     \<and> form_docs (delete_responses_step f st) = form_docs st
     \<and> (\<forall>r \<in> set (response_docs (snd (delete_form_handler Succeeds Succeeds f st))).
           formId r \<noteq> form_id f)
     \<and> findById (form_docs (snd (delete_form_handler Succeeds Succeeds f st))) (form_id f) = None
     \<and> snd (delete_form_handler Succeeds (Throws e) f st) = delete_responses_step f st
     \<and> snd (delete_form_handler (Throws e) delete_outcome f st) = st"
  using assms
  by (auto simp: delete_form_handler_def Let_def message_reply_def delete_form_step_def
      delete_responses_step_def deleteMany_formId_def findByIdAndDelete_none)

theorem delete_form_cascade_witness:
  "distinct (map form_id (form_docs sample_store))
   \<and> http_status (fst (delete_form_handler Succeeds Succeeds
        (sample_form ''a1'' True True 3 1 33) sample_store)) = 200
   \<and> snd (delete_form_handler Succeeds Succeeds (sample_form ''a1'' True True 3 1 33) sample_store)
       = \<lparr>form_docs = [sample_form ''a2'' True False 0 0 0],
          response_docs = [sample_response ''r2'' ''a2'' Absent]\<rparr>
   \<and> findById (form_docs (snd (delete_form_handler Succeeds Succeeds
        (sample_form ''a1'' True True 3 1 33) sample_store))) ''a1'' = None"
proof -
  have d: "distinct (map form_id (form_docs sample_store))"
    by (simp add: sample_store_def sample_form_def)
  have i: "form_id (sample_form ''a1'' True True 3 1 33) = ''a1''"
    by (simp add: sample_form_def)
  have s: "delete_form_step (sample_form ''a1'' True True 3 1 33)
             (delete_responses_step (sample_form ''a1'' True True 3 1 33) sample_store)
           = \<lparr>form_docs = [sample_form ''a2'' True False 0 0 0],
              response_docs = [sample_response ''r2'' ''a2'' Absent]\<rparr>"
    by (simp add: delete_form_step_def delete_responses_step_def deleteMany_formId_def
        sample_store_def sample_form_def sample_response_def new_response_def)
  show ?thesis
    using delete_form_cascade[OF d, of "sample_form ''a1'' True True 3 1 33"] d i s
    by (simp add: findById_def sample_form_def)
qed

text \<open>
  C9. Duplicating a stored form, in a database whose form ids all come from the
  generator and whose generator has ids left, with the save succeeding: the answer is
  201 with the new form, which is added to the collection; its id is the one the
  generator draws, it is the id of no stored form and so differs from the source's;
  \<open>isPublished\<close> is false, its fields and its settings equal the source's, and with no
  title in the request its title is the source's followed by " (Copy)". The database
  keeps its invariant, so the next duplicate gets a new id again.
\<close>

theorem duplicate_form_result:
  assumes "ids_drawn db" and "objectIds_drawn db < 16 ^ 24"
    and "originalForm \<in> set (form_docs db)"
  shows "\<exists>d. reply_form (fst (duplicate_form_handler Succeeds client_url uid body_title
                originalForm db)) = Some d
     \<and> http_status (fst (duplicate_form_handler Succeeds client_url uid body_title
                originalForm db)) = 201
     \<and> form_docs (snd (duplicate_form_handler Succeeds client_url uid body_title
                originalForm db)) = form_docs db @ [d]
     \<and> form_id d = objectId (objectIds_drawn db)
     \<and> form_id d \<notin> form_id ` set (form_docs db)
     \<and> form_id d \<noteq> form_id originalForm
     \<and> isPublished d = False
     \<and> form_fields d = form_fields originalForm
     \<and> settings d = settings originalForm
     \<and> (body_title = None \<longrightarrow> title d = title originalForm @ '' (Copy)'')
     \<and> ids_drawn (snd (duplicate_form_handler Succeeds client_url uid body_title
                originalForm db))"
proof -
  define d where "d = form_save client_url True
                        (duplicateForm (objectId (objectIds_drawn db)) uid body_title originalForm)"
  have i: "form_id d = objectId (objectIds_drawn db)"
    by (simp add: d_def form_save_id duplicateForm_def)
  have fresh: "form_id d \<notin> form_id ` set (form_docs db)"
    using objectId_fresh[OF assms(1,2)] i by simp
  then have diff: "form_id d \<noteq> form_id originalForm"
    using assms(3) by auto
  have content: "isPublished d = False \<and> form_fields d = form_fields originalForm
                 \<and> settings d = settings originalForm
                 \<and> (body_title = None \<longrightarrow> title d = title originalForm @ '' (Copy)'')"
    by (simp add: d_def form_save_def form_pre_save_def Let_def duplicateForm_def
        duplicate_title_def default_stats_def field_toObject_def settings_toObject_def)
  have run: "duplicate_form_handler Succeeds client_url uid body_title originalForm db
             = (\<lparr>http_status = 201, reply_message = Some ''Form duplicated successfully'',
                 reply_error = None, reply_form = Some d\<rparr>,
                db\<lparr>objectIds_drawn := Suc (objectIds_drawn db),
                   form_docs := form_docs db @ [d]\<rparr>)"
    by (simp add: duplicate_form_handler_def Let_def d_def insert_form_def)
  have inv: "ids_drawn (db\<lparr>objectIds_drawn := Suc (objectIds_drawn db),
                           form_docs := form_docs db @ [d]\<rparr>)"
    using assms(1,2) i by (auto simp: ids_drawn_def less_Suc_eq)
  show ?thesis
    using i fresh diff content inv by (simp add: run)
qed

theorem duplicate_form_result_witness:
  "ids_drawn sample_database \<and> objectIds_drawn sample_database < 16 ^ 24
   \<and> sample_form (objectId 0) True True 3 1 33 \<in> set (form_docs sample_database)
   \<and> (\<exists>d. reply_form (fst (duplicate_form_handler Succeeds ''http://localhost:3000'' ''u1''
                None (sample_form (objectId 0) True True 3 1 33) sample_database)) = Some d
          \<and> form_id d = objectId 2
          \<and> form_id d \<noteq> form_id (sample_form (objectId 0) True True 3 1 33)
          \<and> isPublished d = False
          \<and> form_fields d = [sample_field] \<and> settings d = sample_settings
          \<and> title d = ''Survey (Copy)'')"
proof -
  have "\<exists>k<2. objectId 0 = objectId k" "\<exists>k<2. objectId (Suc 0) = objectId k"
    by (intro exI[of _ 0] exI[of _ 1]; simp)+
  then have inv: "ids_drawn sample_database"
    by (simp add: ids_drawn_def sample_database_def sample_form_def)
  have n: "objectIds_drawn sample_database < 16 ^ 24"
    by (simp add: sample_database_def)
  have m: "sample_form (objectId 0) True True 3 1 33 \<in> set (form_docs sample_database)"
    by (simp add: sample_database_def)
  have v: "form_fields (sample_form (objectId 0) True True 3 1 33) = [sample_field]
           \<and> settings (sample_form (objectId 0) True True 3 1 33) = sample_settings
           \<and> title (sample_form (objectId 0) True True 3 1 33) = ''Survey''
           \<and> objectIds_drawn sample_database = 2"
    by (simp add: sample_form_def sample_database_def)
  show ?thesis
    using duplicate_form_result[OF inv n m, of "''http://localhost:3000''" "''u1''" None]
      inv n m v
    by auto
qed

text \<open>
  Every element that passes the check is an object, and the mapping gives it the order
  \<open>field.order || index\<close>: the supplied order when that is truthy (a number other than
  zero, say), the index when the order is absent, null, zero or an empty string. The
  other properties are kept.
\<close>

lemma with_order_object:
  "\<exists>kvs'. with_order index (JObj kvs) = JObj kvs'
     \<and> get_prop kvs' ''order''
         = (if truthy (get_prop kvs ''order'') then get_prop kvs ''order''
            else JNum (of_nat index))
     \<and> (\<forall>k. k \<noteq> ''order'' \<longrightarrow> get_prop kvs' k = get_prop kvs k)"
  by (simp add: with_order_def js_or_def get_set_prop get_set_prop_other)

lemma validate_fields_objects:
  "validate_fields i fs = Valid \<Longrightarrow> field \<in> set fs \<Longrightarrow> \<exists>kvs. field = JObj kvs"
  by (induction fs arbitrary: i)
     (auto simp: field_incomplete_def split: option.splits bool.splits js_value.splits)

lemma map_with_order_nth:
  "i < length fs \<Longrightarrow> map_with_order fs ! i = with_order i (fs ! i)"
  by (simp add: map_with_order_def)

lemma with_order_zero_replaced:
  "with_order 2 (JObj [(''label'', JStr ''Age''), (''order'', JNum 0)])
     = JObj [(''label'', JStr ''Age''), (''order'', JNum 2)]"
  by (simp add: with_order_def js_or_def get_prop_def)

lemma create_form_handler_stores_nothing:
  "snd (create_form_handler req_userId body st) = st
   \<and> http_status (fst (create_form_handler req_userId body st)) \<in> {400, 500}"
  by (simp add: create_form_handler_def message_reply_def error_reply_def
      split: js_value.splits validation.splits)

text \<open>
  C10. Claimed: on create and on update the stored order of the field at index \<open>i\<close> is
  the supplied non-zero order, or \<open>i\<close>. The mapping computes exactly that, but the create
  handler never stores what it computed: for the body of the specification's scenario
  (one complete field, no order) it answers 500 with the ReferenceError of reading
  \<open>form\<close> inside its own initialiser, and the store is unchanged, where the claim has a
  stored form with \<open>fields[0].order = 0\<close>.
\<close>

theorem create_form_scenario_fails:
  "validate_fields 0 [JObj [(''airtableFieldId'', JStr ''f1''),
                            (''airtableFieldName'', JStr ''Name''),
                            (''airtableFieldType'', JStr ''singleLineText''),
                            (''label'', JStr ''Your Name'')]] = Valid
   \<and> create_form_handler ''u1'' scenario_body sample_store
       = (\<lparr>http_status = 500, reply_message = Some ''Failed to create form'',
           reply_error = Some (ReferenceError ''form''), reply_form = None\<rparr>, sample_store)"
  by (simp add: create_form_handler_def scenario_body_def get_prop_def field_incomplete_def
      error_reply_def)

theorem create_form_scenario_fails_witness:
  "http_status (fst (create_form_handler ''u1'' scenario_body sample_store)) = 500
   \<and> form_docs (snd (create_form_handler ''u1'' scenario_body sample_store))
       = form_docs sample_store"
  using create_form_scenario_fails by simp

section \<open>Properties of the User model and the auth routes\<close>

text \<open>
  The serialised view of a user has neither token, and so the body of \<open>GET /me\<close> has
  none.
\<close>

lemma toJSON_omits_tokens:
  "''airtableAccessToken'' \<notin> fst ` set (toJSON u)
   \<and> ''airtableRefreshToken'' \<notin> fst ` set (toJSON u)"
  by (auto simp: toJSON_def delete_prop_def)

lemma me_handler_omits_tokens:
  "me_handler now found = MeStatus code body \<Longrightarrow> ''airtableAccessToken'' \<notin> fst ` set body"
  using toJSON_omits_tokens
  by (auto simp: me_handler_def split: option.splits if_splits)

text \<open>
  The callback compares nothing with the session: its answer does not depend on the
  session or on the \<open>state\<close> of the query, and it leaves the users as they are.
\<close>

lemma simple_callback_state_irrelevant:
  "simple_callback exchange sess (q\<lparr>query_state := s\<rparr>) users
     = simple_callback exchange sess' q users
   \<and> snd (simple_callback exchange sess q users) = users"
  by (simp add: simple_callback_def split: option.splits sum.splits)

text \<open>
  C2. Claimed: no JSON body of an auth endpoint carries the Airtable access token. The
  user's \<open>toJSON\<close> removes it, but \<open>GET /airtable/simple-callback\<close> sends the provider's
  whole token answer back: after a successful exchange the body holds the access token
  (and the refresh token) under \<open>token\<close>.
\<close>

theorem simple_callback_sends_access_token:
  "fst (simple_callback (\<lambda>code. Inr provider_token) started_session matching_query [])
     = JObj [(''success'', JBool True),
             (''token'', JObj [(''access_token'', JStr ''at.secret''),
                               (''refresh_token'', JStr ''rt.secret''),
                               (''token_type'', JStr ''Bearer''),
                               (''expires_in'', JNum 3600)])]"
  by (simp add: simple_callback_def matching_query_def param_truthy_def provider_token_def)

text \<open>
  C3. Claimed: a callback whose \<open>state\<close> differs from the one stored in the session is
  rejected with a state mismatch, and no Credential is created or updated. The session
  holds the state \<open>k3x9q\<close> that \<open>GET /airtable-simple\<close> stored; the callback arrives with
  the state \<open>forged\<close> and is answered with \<open>success\<close> and the token all the same. The
  users are left as they were.
\<close>

theorem simple_callback_accepts_forged_state:
  "oauthState started_session = Some ''k3x9q''
   \<and> query_state forged_query = Some ''forged''
   \<and> simple_callback (\<lambda>code. Inr provider_token) started_session forged_query []
       = (JObj [(''success'', JBool True), (''token'', provider_token)], [])"
  by (simp add: simple_callback_def forged_query_def param_truthy_def started_session_def
      airtable_simple_begin_def)

end
